theory Spec2Isabelle
  imports Complex_Main "HOL-Library.Multiset"
begin

section \<open>JavaScript values\<close>

text \<open>
  The dashboard front end (\<^verbatim>\<open>app.js\<close>) works on values decoded from JSON. A JavaScript
  number is modelled by its exact real value, extended with the three non-finite values;
  the rounding of binary64 arithmetic, overflow to \<open>Infinity\<close> and the sign of zero are
  not modelled. \<open>JUndefined\<close> is what reading a property that is not there gives.
\<close>

datatype jsnum = Fin real | PInf | NInf | NaN

datatype jsval = JUndefined | JNull | JBool bool | JNum jsnum | JStr string

text \<open>\<^verbatim>\<open>typeof v === "number"\<close>\<close>

fun typeof_number :: "jsval \<Rightarrow> bool" where
  "typeof_number (JNum n) = True"
| "typeof_number v = False"

text \<open>\<^verbatim>\<open>Number.isFinite(v)\<close>: false on what is not a number.\<close>

fun Number_isFinite :: "jsval \<Rightarrow> bool" where
  "Number_isFinite (JNum (Fin x)) = True"
| "Number_isFinite v = False"

text \<open>Truthiness, as \<^verbatim>\<open>!v\<close>, \<^verbatim>\<open>||\<close> and \<^verbatim>\<open>?:\<close> read a value.\<close>

fun truthy :: "jsval \<Rightarrow> bool" where
  "truthy JUndefined = False"
| "truthy JNull = False"
| "truthy (JBool b) = b"
| "truthy (JNum (Fin x)) = (x \<noteq> 0)"
| "truthy (JNum NaN) = False"
| "truthy (JNum n) = True"
| "truthy (JStr s) = (s \<noteq> [])"

text \<open>The relational operators on numbers: every comparison with \<open>NaN\<close> is false.\<close>

fun js_lt :: "jsnum \<Rightarrow> jsnum \<Rightarrow> bool" where
  "js_lt NaN b = False"
| "js_lt a NaN = False"
| "js_lt (Fin x) (Fin y) = (x < y)"
| "js_lt a PInf = (a \<noteq> PInf)"
| "js_lt NInf b = (b \<noteq> NInf)"
| "js_lt a b = False"

fun js_eq :: "jsnum \<Rightarrow> jsnum \<Rightarrow> bool" where
  "js_eq NaN b = False"
| "js_eq a NaN = False"
| "js_eq a b = (a = b)"

definition js_gt :: "jsnum \<Rightarrow> jsnum \<Rightarrow> bool" where
  "js_gt a b = js_lt b a"

definition js_le :: "jsnum \<Rightarrow> jsnum \<Rightarrow> bool" where
  "js_le a b = (js_lt a b \<or> js_eq a b)"

definition js_ge :: "jsnum \<Rightarrow> jsnum \<Rightarrow> bool" where
  "js_ge a b = js_le b a"

text \<open>Arithmetic. A finite value divided by zero takes the sign of the dividend.\<close>

fun js_neg :: "jsnum \<Rightarrow> jsnum" where
  "js_neg (Fin x) = Fin (- x)"
| "js_neg PInf = NInf"
| "js_neg NInf = PInf"
| "js_neg NaN = NaN"

fun js_add :: "jsnum \<Rightarrow> jsnum \<Rightarrow> jsnum" where
  "js_add NaN b = NaN"
| "js_add a NaN = NaN"
| "js_add (Fin x) (Fin y) = Fin (x + y)"
| "js_add PInf NInf = NaN"
| "js_add NInf PInf = NaN"
| "js_add PInf b = PInf"
| "js_add NInf b = NInf"
| "js_add (Fin x) b = b"

definition js_sub :: "jsnum \<Rightarrow> jsnum \<Rightarrow> jsnum" where
  "js_sub a b = js_add a (js_neg b)"

fun js_mul :: "jsnum \<Rightarrow> jsnum \<Rightarrow> jsnum" where
  "js_mul NaN b = NaN"
| "js_mul a NaN = NaN"
| "js_mul (Fin x) (Fin y) = Fin (x * y)"
| "js_mul (Fin x) b = (if x = 0 then NaN else if 0 < x then b else js_neg b)"
| "js_mul a (Fin y) = (if y = 0 then NaN else if 0 < y then a else js_neg a)"
| "js_mul a b = (if a = b then PInf else NInf)"

fun js_div :: "jsnum \<Rightarrow> jsnum \<Rightarrow> jsnum" where
  "js_div NaN b = NaN"
| "js_div a NaN = NaN"
| "js_div (Fin x) (Fin y) =
     (if y \<noteq> 0 then Fin (x / y)
      else if x = 0 then NaN else if 0 < x then PInf else NInf)"
| "js_div (Fin x) b = Fin 0"
| "js_div a (Fin y) = (if 0 \<le> y then a else js_neg a)"
| "js_div a b = NaN"

text \<open>\<^verbatim>\<open>Math.abs\<close> on a number.\<close>

fun Math_abs :: "jsnum \<Rightarrow> jsnum" where
  "Math_abs (Fin x) = Fin \<bar>x\<bar>"
| "Math_abs NaN = NaN"
| "Math_abs n = PInf"

section \<open>Session token storage\<close>

text \<open>
  \<^verbatim>\<open>localStorage\<close> is a map from keys to strings; \<^verbatim>\<open>getItem\<close> of a key that is not
  stored gives \<^verbatim>\<open>null\<close>, here \<open>None\<close>.
\<close>

type_synonym storage = "string \<Rightarrow> string option"

definition TOKEN_KEY :: string where
  "TOKEN_KEY = ''advisoriq_token''"

definition getToken :: "storage \<Rightarrow> string option" where
  "getToken ls = ls TOKEN_KEY"

definition setToken :: "string \<Rightarrow> storage \<Rightarrow> storage" where
  "setToken tok ls = ls(TOKEN_KEY \<mapsto> tok)"

definition clearToken :: "storage \<Rightarrow> storage" where
  "clearToken ls = ls(TOKEN_KEY := None)"

section \<open>Risk status of a client card\<close>

text \<open>
  Lines 69 to 78 of \<^verbatim>\<open>renderClientCard\<close>: the CSS class that carries the status. The
  arguments are \<^verbatim>\<open>portfolio.current_annual_vol\<close>, \<^verbatim>\<open>c.target_annual_vol\<close> and
  \<^verbatim>\<open>portfolio.misaligned_with_profile\<close>. The guard's \<^verbatim>\<open>&&\<close> evaluates
  \<^verbatim>\<open>targetVol > 0\<close> only once both operands are numbers.
\<close>

definition statusClass :: "jsval \<Rightarrow> jsval \<Rightarrow> jsval \<Rightarrow> string" where
  "statusClass currentVol targetVol misaligned =
     (case (currentVol, targetVol) of
        (JNum cv, JNum tv) \<Rightarrow>
          if js_gt tv (Fin 0) then
            (let ratio = js_div cv tv in
             if js_le ratio (Fin 1.1) \<and> \<not> truthy misaligned then ''client-card--good''
             else if js_ge ratio (Fin 1.3) \<or> truthy misaligned then ''client-card--risk''
             else [])
          else []
      | _ \<Rightarrow> [])"




section \<open>Formatting numbers\<close>

text \<open>
  The text outside ASCII that the page shows, as UTF-8 bytes: the em dash that stands
  for "no value", and the ellipsis of the loading placeholder.
\<close>

definition em_dash :: string where
  "em_dash = [CHR 0xE2, CHR 0x80, CHR 0x94]"

definition ellipsis :: string where
  "ellipsis = [CHR 0xE2, CHR 0x80, CHR 0xA6]"

text \<open>The decimal digits of a natural number, as \<^verbatim>\<open>String(n)\<close> writes a count.\<close>

definition digit :: "nat \<Rightarrow> char" where
  "digit n = ''0123456789'' ! (n mod 10)"

fun dec_digits :: "nat \<Rightarrow> string" where
  "dec_digits n = (if n < 10 then [digit n] else dec_digits (n div 10) @ [digit (n mod 10)])"

declare dec_digits.simps [simp del]

text \<open>
  \<^verbatim>\<open>Number.prototype.toString\<close> of a finite value of magnitude \<open>10\<^sup>2\<^sup>1\<close> or more, which
  \<^verbatim>\<open>toFixed\<close> falls back to, writes the shortest digits that read back as the same
  binary64 value. That text is not a function of the real value alone; it is left
  unspecified, and so is the number a string reads as (\<^verbatim>\<open>"12" * 100\<close>). What is proved
  below holds whatever these two are.
\<close>

definition Number_toString :: "real \<Rightarrow> string" where
  "Number_toString = undefined"

definition StringToNumber :: "string \<Rightarrow> jsnum" where
  "StringToNumber = undefined"

text \<open>
  \<^verbatim>\<open>x.toFixed(f)\<close> for \<open>f\<close> from 0 to 100: the integer \<open>n\<close> nearest to \<open>\<bar>x\<bar> \<cdot> 10\<^sup>f\<close> (the
  larger of two equally near), its digits padded with zeros to \<open>f + 1\<close> places, and a
  point before the last \<open>f\<close>.
\<close>

definition fixed_digits :: "nat \<Rightarrow> nat \<Rightarrow> string" where
  "fixed_digits n f =
     (let m = dec_digits n;
          m = replicate (f + 1 - length m) (CHR ''0'') @ m;
          k = length m
      in if f = 0 then m else take (k - f) m @ ''.'' @ drop (k - f) m)"

fun toFixed :: "jsnum \<Rightarrow> nat \<Rightarrow> string" where
  "toFixed NaN f = ''NaN''"
| "toFixed PInf f = ''Infinity''"
| "toFixed NInf f = ''-Infinity''"
| "toFixed (Fin x) f =
     (if x < 0 then ''-'' else []) @
     (if 10 ^ 21 \<le> \<bar>x\<bar> then Number_toString \<bar>x\<bar>
      else fixed_digits (nat \<lfloor>\<bar>x\<bar> * 10 ^ f + 1 / 2\<rfloor>) f)"

text \<open>\<^verbatim>\<open>ToNumber\<close>, which \<^verbatim>\<open>*\<close> applies to an operand.\<close>

fun ToNumber :: "jsval \<Rightarrow> jsnum" where
  "ToNumber JUndefined = NaN"
| "ToNumber JNull = Fin 0"
| "ToNumber (JBool b) = Fin (if b then 1 else 0)"
| "ToNumber (JNum n) = n"
| "ToNumber (JStr s) = StringToNumber s"

text \<open>\<^verbatim>\<open>xs.join(sep)\<close> on strings.\<close>

fun join :: "string \<Rightarrow> string list \<Rightarrow> string" where
  "join sep [] = []"
| "join sep [x] = x"
| "join sep (x # y # ys) = x @ sep @ join sep (y # ys)"

section \<open>Drift summary of a client card\<close>

text \<open>
  Lines 81 to 87 of \<^verbatim>\<open>renderClientCard\<close>. \<^verbatim>\<open>Object.entries\<close> of the decoded drift object
  is the list of its (symbol, drift) pairs in enumeration order, the drifts numbers.

  \<^verbatim>\<open>Array.prototype.sort\<close> is stable and takes a comparator: a positive result puts the
  second argument first, and a result that is zero, negative or \<open>NaN\<close> leaves the two in
  the order they have. With a comparator that orders its arguments consistently, as the
  one here does, the result is the one that stable insertion gives.
\<close>

type_synonym entry = "string \<times> jsnum"

fun insert_by :: "('a \<Rightarrow> 'a \<Rightarrow> jsnum) \<Rightarrow> 'a \<Rightarrow> 'a list \<Rightarrow> 'a list" where
  "insert_by cmp x [] = [x]"
| "insert_by cmp x (y # ys) =
     (if js_gt (cmp x y) (Fin 0) then y # insert_by cmp x ys else x # y # ys)"

fun sort_by :: "('a \<Rightarrow> 'a \<Rightarrow> jsnum) \<Rightarrow> 'a list \<Rightarrow> 'a list" where
  "sort_by cmp [] = []"
| "sort_by cmp (x # xs) = insert_by cmp x (sort_by cmp xs)"

text \<open>\<^verbatim>\<open>([, v]) => Math.abs(v) > 0.01\<close>\<close>

definition driftKept :: "entry \<Rightarrow> bool" where
  "driftKept e = js_gt (Math_abs (snd e)) (Fin 0.01)"

text \<open>\<^verbatim>\<open>(a, b) => Math.abs(b[1]) - Math.abs(a[1])\<close>\<close>

definition driftCmp :: "entry \<Rightarrow> entry \<Rightarrow> jsnum" where
  "driftCmp a b = js_sub (Math_abs (snd b)) (Math_abs (snd a))"

definition driftEntries :: "entry list \<Rightarrow> entry list" where
  "driftEntries entries = take 3 (sort_by driftCmp (filter driftKept entries))"

text \<open>\<^verbatim>\<open>([s, v]) => `${s} ${v > 0 ? "+" : ""}${(v * 100).toFixed(1)}%`\<close>\<close>

definition driftText :: "entry \<Rightarrow> string" where
  "driftText e =
     fst e @ '' '' @ (if js_gt (snd e) (Fin 0) then ''+'' else []) @
     toFixed (js_mul (snd e) (Fin 100)) 1 @ ''%''"

definition driftStr :: "entry list \<Rightarrow> string" where
  "driftStr entries =
     (if length (driftEntries entries) \<noteq> 0
      then join '', '' (map driftText (driftEntries entries))
      else em_dash)"

text \<open>The order the summary is in: \<open>a\<close> is at least as far from zero as \<open>b\<close>.\<close>

definition absGe :: "entry \<Rightarrow> entry \<Rightarrow> bool" where
  "absGe a b = js_ge (Math_abs (snd a)) (Math_abs (snd b))"

section \<open>Errors\<close>

text \<open>
  What the code throws and what its \<^verbatim>\<open>catch\<close> blocks see. \<open>Error msg\<close> is
  \<^verbatim>\<open>new Error(msg)\<close>. \<open>TypeError\<close> is the engine's failure to read a property of
  \<^verbatim>\<open>undefined\<close> or \<^verbatim>\<open>null\<close>, or to call what is not a function; \<open>NetworkError\<close> is
  the rejection of \<^verbatim>\<open>fetch\<close> when no response arrives, \<open>SyntaxError\<close> that of
  \<^verbatim>\<open>res.json()\<close> on a body that is not JSON. The messages of these three are the
  engine's own and are never \<^verbatim>\<open>"Session expired"\<close>.
\<close>

datatype js_error = Error string | TypeError | SyntaxError | NetworkError

text \<open>\<^verbatim>\<open>xs.map(f)\<close> where \<open>f\<close> may throw: the first throw ends the map.\<close>

fun mapE :: "('a \<Rightarrow> js_error + 'b) \<Rightarrow> 'a list \<Rightarrow> js_error + 'b list" where
  "mapE f [] = Inr []"
| "mapE f (x # xs) =
     (case f x of
        Inl e \<Rightarrow> Inl e
      | Inr y \<Rightarrow> (case mapE f xs of Inl e \<Rightarrow> Inl e | Inr ys \<Rightarrow> Inr (y # ys)))"

section \<open>The fetched data\<close>

text \<open>
  The objects of the decoded responses. A scalar field holds any scalar JSON value, or
  \<open>JUndefined\<close> when the key is not there. A field that holds an object or an array is
  \<open>None\<close> when the key is not there or holds \<^verbatim>\<open>null\<close>.
\<close>

record Client =
  client_id :: jsval
  name :: jsval
  risk_label :: jsval
  target_annual_vol :: jsval

record IvMetrics =
  sharpe :: jsval

record Portfolio =
  client :: "Client option"
  iv_adjusted_optimal :: "IvMetrics option"
  current_annual_vol :: jsval
  drift_from_optimal :: "entry list option"
  misaligned_with_profile :: jsval
  has_recent_update :: jsval
  last_updated :: jsval

record Signal =
  symbol :: jsval
  iv :: jsval
  predicted_hv :: jsval
  ivr :: jsval
  iv_percentile :: jsval
  regime :: jsval
  fear_level :: jsval
  recommended_action :: jsval

record StressScenario =
  scenario_name :: jsval
  description :: jsval
  portfolio_loss_pct_current :: jsval
  portfolio_loss_pct_iv_adjusted :: jsval

record universeRes =
  universe_regime :: jsval

record signalsRes =
  signals_regime :: jsval
  signals :: "Signal list option"

record portfoliosRes =
  portfolios :: "Portfolio list option"

record stressRes =
  scenarios :: "StressScenario list option"

text \<open>\<^verbatim>\<open>xs || []\<close>\<close>

definition or_empty :: "'a list option \<Rightarrow> 'a list" where
  "or_empty xs = (case xs of None \<Rightarrow> [] | Some l \<Rightarrow> l)"

text \<open>\<^verbatim>\<open>a || b\<close> on scalars.\<close>

definition js_or :: "jsval \<Rightarrow> jsval \<Rightarrow> jsval" where
  "js_or a b = (if truthy a then a else b)"

section \<open>The page\<close>

text \<open>
  What the functions read and write besides their arguments: \<^verbatim>\<open>localStorage\<close>, which of
  the two screens is shown, the requests sent so far (URL path and \<^verbatim>\<open>Authorization\<close>
  header), and the content of the dashboard's elements. The content of a panel is kept
  as the view-models it was rendered from, not as markup. A metric tile is \<open>None\<close> when
  the document has no such element, which the code allows for.
\<close>

datatype screen = LoginScreen | AppScreen

record card =
  card_statusClass :: string
  card_misaligned :: bool
  card_client_id :: jsval
  card_name :: jsval
  card_hasUpdate :: bool
  card_risk_label :: jsval
  card_targetVol :: string
  card_currentVol :: string
  card_sharpe :: string
  card_drift :: string

record signal_row =
  row_symbol :: jsval
  row_iv :: string
  row_predicted_hv :: string
  row_ivr :: string
  row_iv_percentile :: string
  row_regime :: jsval
  row_fear_class :: string
  row_fear_level :: jsval
  row_recommended_action :: jsval

record stress_card =
  stress_name :: string
  stress_description :: jsval
  stress_lossCur :: string
  stress_lossIv :: string

datatype clientGrid_content = GridLoading | GridUnreachable | GridCards "card list"

datatype stressGrid_content = StressLoading | StressCards "stress_card list"

record page =
  localStorage :: storage
  visible :: screen
  requests :: "(string \<times> string option) list"
  regimeBadge :: jsval
  clientGrid :: clientGrid_content
  signalsBody :: "signal_row list"
  stressGrid :: stressGrid_content
  metricRegime :: "jsval option"
  metricAvgIv :: "string option"
  metricHighFear :: "string option"
  metricMaxIvr :: "string option"

text \<open>\<^verbatim>\<open>if (el) el.textContent = s\<close>\<close>

definition setText :: "'a option \<Rightarrow> 'a \<Rightarrow> 'a option" where
  "setText el s = (case el of None \<Rightarrow> None | Some old \<Rightarrow> Some s)"

definition showLogin :: "page \<Rightarrow> page" where
  "showLogin p = p\<lparr>visible := LoginScreen\<rparr>"

section \<open>Aggregate metrics\<close>

text \<open>Lines 224 to 250 of \<^verbatim>\<open>loadDashboard\<close>.\<close>

definition avgIv :: "Signal list \<Rightarrow> jsnum" where
  "avgIv sigs =
     js_div
       (foldl (\<lambda>sum s. js_add sum (if typeof_number (iv s) then ToNumber (iv s) else Fin 0))
          (Fin 0) sigs)
       (Fin (real (length (filter (\<lambda>s. typeof_number (iv s)) sigs))))"

definition highFearCount :: "Signal list \<Rightarrow> nat" where
  "highFearCount sigs =
     length (filter (\<lambda>s. fear_level s = JStr ''HIGH_FEAR'' \<or> fear_level s = JStr ''ELEVATED_FEAR'')
       sigs)"

text \<open>\<^verbatim>\<open>Math.max(...vs)\<close>: \<open>-Infinity\<close> of no arguments, \<open>NaN\<close> if one of them is.\<close>

definition js_max :: "jsnum \<Rightarrow> jsnum \<Rightarrow> jsnum" where
  "js_max a b = (if a = NaN \<or> b = NaN then NaN else if js_lt a b then b else a)"

definition Math_max :: "jsval list \<Rightarrow> jsnum" where
  "Math_max vs = foldl (\<lambda>m v. js_max m (ToNumber v)) NInf vs"

definition maxIvr :: "Signal list \<Rightarrow> jsnum" where
  "maxIvr sigs =
     Math_max (filter (\<lambda>v. typeof_number v \<and> Number_isFinite v) (map ivr sigs))"

definition updateMetrics :: "Signal list \<Rightarrow> page \<Rightarrow> page" where
  "updateMetrics sigs p =
     (if length sigs > 0 then
        (let p1 = (if metricAvgIv p \<noteq> None \<and> Number_isFinite (JNum (avgIv sigs))
                   then p\<lparr>metricAvgIv :=
                          Some (toFixed (js_mul (avgIv sigs) (Fin 100)) 1 @ ''%'')\<rparr>
                   else p);
             p2 = p1\<lparr>metricHighFear :=
                       setText (metricHighFear p1) (dec_digits (highFearCount sigs))\<rparr>
         in if metricMaxIvr p2 \<noteq> None \<and> Number_isFinite (JNum (maxIvr sigs))
            then p2\<lparr>metricMaxIvr := Some (toFixed (maxIvr sigs) 2)\<rparr>
            else p2)
      else
        p\<lparr>metricAvgIv := setText (metricAvgIv p) em_dash,
          metricHighFear := setText (metricHighFear p) em_dash,
          metricMaxIvr := setText (metricMaxIvr p) em_dash\<rparr>)"



section \<open>Rendering the panels\<close>

text \<open>\<^verbatim>\<open>(v * 100).toFixed(f)\<close>\<close>

definition percent :: "jsval \<Rightarrow> nat \<Rightarrow> string" where
  "percent v f = toFixed (js_mul (ToNumber v) (Fin 100)) f"

text \<open>
  \<^verbatim>\<open>renderClientCard\<close>, lines 64 to 113. The card is kept as the values the template
  interpolates; text that is only escaped or converted to a string is kept as the
  value. Reading \<^verbatim>\<open>c.target_annual_vol\<close> (line 68) throws when the portfolio has no
  client, \<^verbatim>\<open>Object.entries\<close> (line 81) when it has no drift object, and
  \<^verbatim>\<open>iv.sharpe.toFixed(2)\<close> (line 103) when it has no \<^verbatim>\<open>iv_adjusted_optimal\<close> or the
  \<^verbatim>\<open>sharpe\<close> in it is not a number.
\<close>

definition renderClientCard :: "Portfolio \<Rightarrow> js_error + card" where
  "renderClientCard portfolio =
     (case client portfolio of
        None \<Rightarrow> Inl TypeError
      | Some c \<Rightarrow>
          (let currentVol = current_annual_vol portfolio;
               targetVol = target_annual_vol c;
               cls = statusClass currentVol targetVol (misaligned_with_profile portfolio);
               hasUpdate = (truthy (has_recent_update portfolio)
                            \<or> truthy (last_updated portfolio))
           in case drift_from_optimal portfolio of
                None \<Rightarrow> Inl TypeError
              | Some drift \<Rightarrow>
                  (case iv_adjusted_optimal portfolio of
                     None \<Rightarrow> Inl TypeError
                   | Some ivm \<Rightarrow>
                       (case sharpe ivm of
                          JNum n \<Rightarrow>
                            Inr \<lparr>card_statusClass = cls,
                                 card_misaligned = truthy (misaligned_with_profile portfolio),
                                 card_client_id = client_id c,
                                 card_name = name c,
                                 card_hasUpdate = hasUpdate,
                                 card_risk_label = risk_label c,
                                 card_targetVol = percent (target_annual_vol c) 1,
                                 card_currentVol = percent (current_annual_vol portfolio) 1,
                                 card_sharpe = toFixed n 2,
                                 card_drift = driftStr drift\<rparr>
                        | _ \<Rightarrow> Inl TypeError))))"

text \<open>
  \<^verbatim>\<open>renderSignalsTable\<close>, lines 115 to 132: \<^verbatim>\<open>s.ivr.toFixed(2)\<close> throws unless
  \<^verbatim>\<open>s.ivr\<close> is a number.
\<close>

definition signalRow :: "Signal \<Rightarrow> js_error + signal_row" where
  "signalRow s =
     (case ivr s of
        JNum n \<Rightarrow>
          Inr \<lparr>row_symbol = symbol s,
               row_iv = percent (iv s) 1,
               row_predicted_hv = percent (predicted_hv s) 1,
               row_ivr = toFixed n 2,
               row_iv_percentile = percent (iv_percentile s) 0,
               row_regime = regime s,
               row_fear_class =
                 (if fear_level s = JStr ''HIGH_FEAR'' then ''fear-high''
                  else if fear_level s = JStr ''ELEVATED_FEAR'' then ''fear-elevated''
                  else []),
               row_fear_level = fear_level s,
               row_recommended_action = recommended_action s\<rparr>
      | _ \<Rightarrow> Inl TypeError)"

definition renderSignalsTable :: "Signal list \<Rightarrow> js_error + signal_row list" where
  "renderSignalsTable sigs = mapE signalRow sigs"

text \<open>
  \<^verbatim>\<open>renderStressCard\<close>, lines 134 to 153: \<^verbatim>\<open>scenario.name.replace\<close> throws unless the
  name is a string.
\<close>

definition renderStressCard :: "StressScenario \<Rightarrow> js_error + stress_card" where
  "renderStressCard scenario =
     (let lossCur = percent (portfolio_loss_pct_current scenario) 1;
          lossIv = percent (portfolio_loss_pct_iv_adjusted scenario) 1
      in case scenario_name scenario of
           JStr nm \<Rightarrow>
             Inr \<lparr>stress_name = map (\<lambda>ch. if ch = CHR ''_'' then CHR '' '' else ch) nm,
                  stress_description = description scenario,
                  stress_lossCur = lossCur,
                  stress_lossIv = lossIv\<rparr>
         | _ \<Rightarrow> Inl TypeError)"

section \<open>Calling the API\<close>

text \<open>
  What \<^verbatim>\<open>await fetch(...)\<close> gives: no response at all, or a response with its status
  and its body decoded as JSON (\<open>None\<close> when the body is not JSON).
\<close>

datatype 'a fetched = NoResponse | Response nat "'a option"

definition API_BASE :: string where
  "API_BASE = ''http://localhost:8001''"

text \<open>\<^verbatim>\<open>if (token) headers["Authorization"] = `Bearer ${token}`\<close>\<close>

definition authorization :: "storage \<Rightarrow> string option" where
  "authorization ls =
     (case getToken ls of
        None \<Rightarrow> None
      | Some tok \<Rightarrow> if tok = [] then None else Some (''Bearer '' @ tok))"

text \<open>
  \<^verbatim>\<open>fetchAPI\<close>, lines 21 to 34, in its two halves: up to the \<^verbatim>\<open>await\<close> it reads the
  token and sends the request; once the fetch has settled it looks at the response.
\<close>

definition fetchAPI_send :: "string \<Rightarrow> page \<Rightarrow> page" where
  "fetchAPI_send path p =
     p\<lparr>requests := requests p @ [(API_BASE @ path, authorization (localStorage p))]\<rparr>"

definition fetchAPI_receive :: "'a fetched \<Rightarrow> page \<Rightarrow> (js_error + 'a) \<times> page" where
  "fetchAPI_receive res p =
     (case res of
        NoResponse \<Rightarrow> (Inl NetworkError, p)
      | Response st body \<Rightarrow>
          if st = 401
          then (Inl (Error ''Session expired''),
                showLogin (p\<lparr>localStorage := clearToken (localStorage p)\<rparr>))
          else if \<not> (200 \<le> st \<and> st \<le> 299)
          then (Inl (Error (''API error: '' @ dec_digits st)), p)
          else (case body of None \<Rightarrow> (Inl SyntaxError, p) | Some b \<Rightarrow> (Inr b, p)))"

definition fetchAPI :: "string \<Rightarrow> 'a fetched \<Rightarrow> page \<Rightarrow> (js_error + 'a) \<times> page" where
  "fetchAPI path res p = fetchAPI_receive res (fetchAPI_send path p)"

text \<open>
  The error of the 401 branch, under the name the specification gives it, and what that
  branch does to the page.
\<close>

definition SessionExpired :: js_error where
  "SessionExpired = Error ''Session expired''"

definition logged_out :: "page \<Rightarrow> page" where
  "logged_out p = showLogin (p\<lparr>localStorage := clearToken (localStorage p)\<rparr>)"

section \<open>Refreshing the dashboard\<close>

text \<open>
  \<^verbatim>\<open>loadDashboard\<close>, lines 195 to 268. The four calls of \<^verbatim>\<open>Promise.all\<close> each run up to
  their \<^verbatim>\<open>await\<close>, so the four requests are sent before any response is looked at. The
  fetches then settle in an order the code does not control: \<open>order\<close> lists the endpoints
  in the order they settle, and an endpoint it leaves out never settles. \<^verbatim>\<open>Promise.all\<close>
  rejects with the first rejection, at which the \<^verbatim>\<open>catch\<close> block runs; the calls that
  settle later still run to their end. While no call has failed and one of the four has
  not settled, the refresh is still waiting and the page stays as the settled calls
  left it.
\<close>

datatype endpoint = Universe | Signals | Portfolios | StressTests

record responses =
  universe_response :: "universeRes fetched"
  signals_response :: "signalsRes fetched"
  portfolios_response :: "portfoliosRes fetched"
  stress_response :: "stressRes fetched"

definition thrown :: "(js_error + 'a) \<times> page \<Rightarrow> js_error option \<times> page" where
  "thrown r = (case fst r of Inl e \<Rightarrow> (Some e, snd r) | Inr b \<Rightarrow> (None, snd r))"

fun settle :: "responses \<Rightarrow> endpoint \<Rightarrow> page \<Rightarrow> js_error option \<times> page" where
  "settle rs Universe p = thrown (fetchAPI_receive (universe_response rs) p)"
| "settle rs Signals p = thrown (fetchAPI_receive (signals_response rs) p)"
| "settle rs Portfolios p = thrown (fetchAPI_receive (portfolios_response rs) p)"
| "settle rs StressTests p = thrown (fetchAPI_receive (stress_response rs) p)"

text \<open>
  The first rejection, the endpoints still to settle after it, and the page at that
  moment; no rejection when every endpoint of the list has settled with success.
\<close>

fun await_all ::
  "responses \<Rightarrow> endpoint list \<Rightarrow> page \<Rightarrow> js_error option \<times> endpoint list \<times> page" where
  "await_all rs [] p = (None, [], p)"
| "await_all rs (ep # eps) p =
     (case settle rs ep p of
        (Some e, q) \<Rightarrow> (Some e, eps, q)
      | (None, q) \<Rightarrow> await_all rs eps q)"

definition settle_later :: "responses \<Rightarrow> endpoint list \<Rightarrow> page \<Rightarrow> page" where
  "settle_later rs eps p = fold (\<lambda>ep q. snd (settle rs ep q)) eps p"

text \<open>
  The body that \<^verbatim>\<open>fetchAPI\<close> returns for a response, \<open>None\<close> for a response on which it
  throws: what \<^verbatim>\<open>Promise.all\<close> hands over for an endpoint once all four have succeeded.
\<close>

definition returned :: "'a fetched \<Rightarrow> 'a option" where
  "returned res =
     (case res of
        NoResponse \<Rightarrow> None
      | Response st body \<Rightarrow> if st \<noteq> 401 \<and> 200 \<le> st \<and> st \<le> 299 then body else None)"

text \<open>Lines 205 to 216: the placeholders, then the four requests.\<close>

definition startDashboard :: "page \<Rightarrow> page" where
  "startDashboard p =
     fetchAPI_send ''/api/stress-tests''
       (fetchAPI_send ''/api/portfolios''
         (fetchAPI_send ''/api/signals''
           (fetchAPI_send ''/api/universe''
             (p\<lparr>regimeBadge := JStr (''Loading'' @ ellipsis),
                clientGrid := GridLoading,
                signalsBody := [],
                stressGrid := StressLoading\<rparr>))))"

text \<open>
  Lines 218 to 259, with the four bodies: the error thrown on the way, if any, and the
  page as it is then.
\<close>

definition renderDashboard ::
  "universeRes \<Rightarrow> signalsRes \<Rightarrow> portfoliosRes \<Rightarrow> stressRes \<Rightarrow> page
     \<Rightarrow> js_error option \<times> page" where
  "renderDashboard universeRes signalsRes portfoliosRes stressRes p =
     (let rg = js_or (universe_regime universeRes)
                 (js_or (signals_regime signalsRes) (JStr em_dash));
          p1 = p\<lparr>regimeBadge := rg\<rparr>;
          sigs = or_empty (signals signalsRes);
          p2 = p1\<lparr>metricRegime := setText (metricRegime p1) rg\<rparr>;
          p3 = updateMetrics sigs p2
      in case mapE renderClientCard (or_empty (portfolios portfoliosRes)) of
           Inl e \<Rightarrow> (Some e, p3)
         | Inr cards \<Rightarrow>
             (let p4 = p3\<lparr>clientGrid := GridCards cards\<rparr>
              in case renderSignalsTable (or_empty (signals signalsRes)) of
                   Inl e \<Rightarrow> (Some e, p4)
                 | Inr rows \<Rightarrow>
                     (let p5 = p4\<lparr>signalsBody := rows\<rparr>
                      in case mapE renderStressCard (or_empty (scenarios stressRes)) of
                           Inl e \<Rightarrow> (Some e, p5)
                         | Inr stress \<Rightarrow> (None, p5\<lparr>stressGrid := StressCards stress\<rparr>))))"

text \<open>Lines 260 to 267: the \<^verbatim>\<open>catch\<close> block.\<close>

definition catchDashboard :: "js_error \<Rightarrow> page \<Rightarrow> page" where
  "catchDashboard e p =
     (if e \<noteq> Error ''Session expired''
      then p\<lparr>regimeBadge := JStr em_dash,
             clientGrid := GridUnreachable,
             signalsBody := [],
             stressGrid := StressCards []\<rparr>
      else p)"

definition loadDashboard :: "endpoint list \<Rightarrow> responses \<Rightarrow> page \<Rightarrow> page" where
  "loadDashboard order rs p =
     (case await_all rs order (startDashboard p) of
        (Some e, later, q) \<Rightarrow> settle_later rs later (catchDashboard e q)
      | (None, later, q) \<Rightarrow>
          (case (returned (universe_response rs), returned (signals_response rs),
                 returned (portfolios_response rs), returned (stress_response rs)) of
             (Some universeRes, Some signalsRes, Some portfoliosRes, Some stressRes) \<Rightarrow>
               if Universe \<in> set order \<and> Signals \<in> set order \<and> Portfolios \<in> set order
                  \<and> StressTests \<in> set order
               then (case renderDashboard universeRes signalsRes portfoliosRes stressRes q of
                       (Some e, q') \<Rightarrow> catchDashboard e q'
                     | (None, q') \<Rightarrow> q')
               else q
           | _ \<Rightarrow> q))"

section \<open>Sample data\<close>

text \<open>
  Concrete data for the instances below: a signal with the given \<^verbatim>\<open>iv\<close>, \<^verbatim>\<open>ivr\<close> and
  \<^verbatim>\<open>fear_level\<close>; a portfolio with the given volatilities, drift object and metrics; a
  dashboard that has been rendered once, with a token stored; four responses that all
  succeed; and the order in which the requests are sent.
\<close>

definition a_signal :: "jsval \<Rightarrow> jsval \<Rightarrow> jsval \<Rightarrow> Signal" where
  "a_signal v r f =
     \<lparr>symbol = JStr ''SPY'', iv = v, predicted_hv = JUndefined, ivr = r,
      iv_percentile = JUndefined, regime = JUndefined, fear_level = f,
      recommended_action = JUndefined\<rparr>"

definition a_client :: "jsval \<Rightarrow> Client" where
  "a_client tv =
     \<lparr>client_id = JStr ''c1'', name = JStr ''Ada'', risk_label = JStr ''MODERATE'',
      target_annual_vol = tv\<rparr>"

definition a_portfolio ::
  "jsval \<Rightarrow> jsval \<Rightarrow> entry list option \<Rightarrow> IvMetrics option \<Rightarrow> Portfolio" where
  "a_portfolio cv tv d m =
     \<lparr>client = Some (a_client tv), iv_adjusted_optimal = m, current_annual_vol = cv,
      drift_from_optimal = d, misaligned_with_profile = JBool False,
      has_recent_update = JUndefined, last_updated = JUndefined\<rparr>"

definition a_card :: card where
  "a_card =
     \<lparr>card_statusClass = ''client-card--risk'', card_misaligned = False,
      card_client_id = JStr ''c1'', card_name = JStr ''Ada'', card_hasUpdate = False,
      card_risk_label = JStr ''MODERATE'', card_targetVol = ''10.0'',
      card_currentVol = ''20.0'', card_sharpe = ''0.85'', card_drift = em_dash\<rparr>"

definition a_page :: page where
  "a_page =
     \<lparr>localStorage = Map.empty(TOKEN_KEY \<mapsto> ''t0k3n''), visible = AppScreen, requests = [],
      regimeBadge = JStr ''NORMAL'', clientGrid = GridCards [a_card], signalsBody = [],
      stressGrid = StressCards [], metricRegime = Some (JStr ''NORMAL''),
      metricAvgIv = Some ''18.0%'', metricHighFear = Some ''3'',
      metricMaxIvr = Some ''1.80''\<rparr>"

definition ok_responses :: responses where
  "ok_responses =
     \<lparr>universe_response = Response 200 (Some \<lparr>universe_regime = JStr ''STRESS''\<rparr>),
      signals_response = Response 200 (Some \<lparr>signals_regime = JUndefined,
        signals = Some [a_signal (JNum (Fin 0.2)) (JNum (Fin 1.234)) (JStr ''HIGH_FEAR''),
                        a_signal (JNum (Fin 0.3)) (JNum (Fin 0.9)) (JStr ''NONE'')]\<rparr>),
      portfolios_response = Response 200 (Some \<lparr>portfolios =
        Some [a_portfolio (JNum (Fin 0.08)) (JNum (Fin 0.10)) (Some [(''SPY'', Fin 0.04)])
                (Some \<lparr>sharpe = JNum (Fin 1.234)\<rparr>)]\<rparr>),
      stress_response = Response 200 (Some \<lparr>scenarios = Some []\<rparr>)\<rparr>"

definition issue_order :: "endpoint list" where
  "issue_order = [Universe, Signals, Portfolios, StressTests]"

section \<open>Properties\<close>

text \<open>
  C10. The token store round-trips through its one key: reading after \<open>setToken t\<close> gives
  \<open>t\<close>, reading after \<open>clearToken\<close> gives nothing, a second \<open>setToken\<close> overwrites the
  first (the store after both is the store after the second alone), and setting and
  clearing undo each other at \<open>getToken\<close>.
\<close>

theorem token_store_round_trip:
  "getToken (setToken t ls) = Some t
   \<and> getToken (clearToken ls) = None
   \<and> setToken t2 (setToken t1 ls) = setToken t2 ls
   \<and> getToken (setToken t2 (setToken t1 ls)) = Some t2
   \<and> getToken (clearToken (setToken t ls)) = None
   \<and> getToken (setToken t (clearToken ls)) = Some t
   \<and> clearToken (clearToken ls) = clearToken ls"
  by (simp add: getToken_def setToken_def clearToken_def)



subsection \<open>Sorting by the comparator, and the digits of a percentage\<close>

lemma driftCmp_gt: "js_gt (driftCmp a b) (Fin 0) \<longleftrightarrow> js_lt (Math_abs (snd a)) (Math_abs (snd b))"
  by (cases "snd a"; cases "snd b") (auto simp: driftCmp_def js_sub_def js_gt_def)

lemma mset_insert_by: "mset (insert_by cmp x xs) = add_mset x (mset xs)"
  by (induction xs) auto

lemma mset_sort_by: "mset (sort_by cmp xs) = mset xs"
  by (induction xs) (auto simp: mset_insert_by)

lemma set_sort_by: "set (sort_by cmp xs) = set xs"
  by (metis mset_sort_by set_mset_mset)


lemma kept_total: "driftKept a \<Longrightarrow> driftKept b \<Longrightarrow>
    \<not> js_lt (Math_abs (snd a)) (Math_abs (snd b)) \<Longrightarrow> absGe a b"
  by (cases "snd a"; cases "snd b") (auto simp: driftKept_def absGe_def js_gt_def js_ge_def js_le_def)

lemma kept_lt_ge: "driftKept a \<Longrightarrow> driftKept b \<Longrightarrow>
    js_lt (Math_abs (snd a)) (Math_abs (snd b)) \<Longrightarrow> absGe b a"
  by (cases "snd a"; cases "snd b") (auto simp: driftKept_def absGe_def js_gt_def js_ge_def js_le_def)

lemma absGe_not_lt: "absGe a b \<Longrightarrow> \<not> js_lt (Math_abs (snd a)) (Math_abs (snd b))"
  by (cases "snd a"; cases "snd b") (auto simp: absGe_def js_ge_def js_le_def)

lemma absGe_trans: "absGe a b \<Longrightarrow> absGe b c \<Longrightarrow> absGe a c"
  by (cases "snd a"; cases "snd b"; cases "snd c") (auto simp: absGe_def js_ge_def js_le_def)

lemma sorted_insert_by:
  "driftKept x \<Longrightarrow> \<forall>e\<in>set xs. driftKept e \<Longrightarrow> sorted_wrt absGe xs
     \<Longrightarrow> sorted_wrt absGe (insert_by driftCmp x xs)"
proof (induction xs)
  case Nil
  then show ?case by simp
next
  case (Cons y ys)
  show ?case
  proof (cases "js_lt (Math_abs (snd x)) (Math_abs (snd y))")
    case True
    have "absGe y x" using kept_lt_ge[OF _ _ True] Cons.prems by simp
    moreover have "sorted_wrt absGe (insert_by driftCmp x ys)"
      using Cons by simp
    moreover have "set (insert_by driftCmp x ys) = insert x (set ys)"
      by (metis mset_insert_by set_mset_mset set_mset_add_mset_insert)
    ultimately show ?thesis using True Cons.prems by (simp add: driftCmp_gt)
  next
    case False
    have xy: "absGe x y" using kept_total[OF _ _ False] Cons.prems by simp
    have "\<forall>z\<in>set ys. absGe x z"
      using xy Cons.prems(3) absGe_trans by auto
    then show ?thesis using False xy Cons.prems by (simp add: driftCmp_gt)
  qed
qed

lemma sorted_sort_by:
  "\<forall>e\<in>set xs. driftKept e \<Longrightarrow> sorted_wrt absGe (sort_by driftCmp xs)"
  by (induction xs) (auto simp: sorted_insert_by set_sort_by)

lemma sort_by_sorted_id:
  "sorted_wrt absGe xs \<Longrightarrow> sort_by driftCmp xs = xs"
proof (induction xs)
  case Nil
  then show ?case by simp
next
  case (Cons x xs)
  then have ih: "sort_by driftCmp xs = xs" by simp
  show ?case
  proof (cases xs)
    case Nil
    then show ?thesis by simp
  next
    case (Cons y ys)
    then have "absGe x y" using Cons.prems \<open>sorted_wrt absGe (x # xs)\<close> by simp
    then show ?thesis using ih Cons by (simp add: driftCmp_gt absGe_not_lt)
  qed
qed









text \<open>
  C5. The ranking never returns more than three entries, and every entry it returns is
  one of the input whose absolute drift is not at most 0.01. On input whose kept entries
  are already in descending order of absolute drift it returns the first three of them
  as they stand; sorting the kept entries first and ranking the result gives what
  ranking the input gives, and so does ranking the ranking's own result.
\<close>

theorem drift_ranking_idempotent:
  "length (driftEntries entries) \<le> 3
   \<and> (\<forall>e\<in>set (driftEntries entries).
        e \<in> set entries \<and> \<not> js_le (Math_abs (snd e)) (Fin 0.01))
   \<and> (sorted_wrt absGe (filter driftKept entries)
        \<longrightarrow> driftEntries entries = take 3 (filter driftKept entries))
   \<and> driftEntries (sort_by driftCmp (filter driftKept entries)) = driftEntries entries
   \<and> driftEntries (driftEntries entries) = driftEntries entries"
proof -
  let ?kept = "filter driftKept entries"
  let ?srt = "sort_by driftCmp ?kept"
  have allk: "\<forall>e\<in>set ?kept. driftKept e" by simp
  have srt: "sorted_wrt absGe ?srt" using sorted_sort_by[OF allk] .
  have d1: "length (driftEntries entries) \<le> 3" by (simp add: driftEntries_def)
  have sub: "set (driftEntries entries) \<subseteq> set ?kept"
    unfolding driftEntries_def by (metis set_take_subset set_sort_by)
  have nle: "driftKept e \<Longrightarrow> \<not> js_le (Math_abs (snd e)) (Fin 0.01)" for e
    by (cases "snd e") (auto simp: driftKept_def js_gt_def js_le_def)
  have d2: "\<forall>e\<in>set (driftEntries entries).
        e \<in> set entries \<and> \<not> js_le (Math_abs (snd e)) (Fin 0.01)"
    using sub nle by auto
  have d3: "sorted_wrt absGe ?kept \<longrightarrow> driftEntries entries = take 3 ?kept"
    by (simp add: driftEntries_def sort_by_sorted_id)
  have fs: "filter driftKept ?srt = ?srt"
    by (simp add: set_sort_by)
  have d4: "driftEntries ?srt = driftEntries entries"
    by (simp add: driftEntries_def fs sort_by_sorted_id[OF srt])
  have topk: "filter driftKept (take 3 ?srt) = take 3 ?srt"
    by (metis (mono_tags, lifting) allk filter_True in_set_takeD set_sort_by)
  have tops: "sorted_wrt absGe (take 3 ?srt)"
    using srt by (metis append_take_drop_id sorted_wrt_append)
  have d5: "driftEntries (driftEntries entries) = driftEntries entries"
    unfolding driftEntries_def[of entries]
    by (simp add: driftEntries_def[of "take 3 ?srt"] topk sort_by_sorted_id[OF tops])
  show ?thesis using d1 d2 d3 d4 d5 by blast
qed

theorem drift_ranking_idempotent_witness:
  "sorted_wrt absGe (filter driftKept
      [(''TLT'', Fin (-0.2)), (''AAPL'', Fin 0.052), (''X'', Fin 0.005), (''Q'', Fin 0.04),
       (''MSFT'', Fin (-0.031))])
   \<and> driftEntries [(''TLT'', Fin (-0.2)), (''AAPL'', Fin 0.052), (''X'', Fin 0.005),
        (''Q'', Fin 0.04), (''MSFT'', Fin (-0.031))]
      = [(''TLT'', Fin (-0.2)), (''AAPL'', Fin 0.052), (''Q'', Fin 0.04)]
   \<and> driftEntries [(''TLT'', Fin (-0.2)), (''AAPL'', Fin 0.052), (''Q'', Fin 0.04)]
      = [(''TLT'', Fin (-0.2)), (''AAPL'', Fin 0.052), (''Q'', Fin 0.04)]
   \<and> \<not> js_le (Math_abs (Fin (-0.2))) (Fin 0.01)"
proof -
  have ev: ?thesis
    by (simp add: driftEntries_def driftKept_def driftCmp_def js_sub_def js_gt_def js_le_def
        js_ge_def absGe_def)
  show ?thesis
    using
      drift_ranking_idempotent [of "[(''TLT'', Fin (-0.2)), (''AAPL'', Fin 0.052),
        (''X'', Fin 0.005), (''Q'', Fin 0.04), (''MSFT'', Fin (-0.031))]"]
    by - (rule ev)
qed

subsection \<open>The sum, the count and the maximum over a collection of signals\<close>

















subsection \<open>One refresh of the dashboard\<close>

lemma receive_fst_indep: "fst (fetchAPI_receive res p) = fst (fetchAPI_receive res q)"
  by (simp add: fetchAPI_receive_def split: fetched.splits option.splits)

lemma receive_snd:
  "snd (fetchAPI_receive res p) =
     (if fst (fetchAPI_receive res p) = Inl SessionExpired then logged_out p else p)"
  by (simp add: fetchAPI_receive_def logged_out_def SessionExpired_def
      split: fetched.splits option.splits)

lemma thrown_fst: "fst (thrown r) = (case fst r of Inl e \<Rightarrow> Some e | Inr b \<Rightarrow> None)"
  by (simp add: thrown_def split: sum.splits)

lemma thrown_snd: "snd (thrown r) = snd r"
  by (simp add: thrown_def split: sum.splits)

lemma settle_fst_indep: "fst (settle rs ep p) = fst (settle rs ep q)"
  by (cases ep) (simp_all add: thrown_fst receive_fst_indep[of _ p q])

lemma settle_snd:
  "snd (settle rs ep p) = (if fst (settle rs ep p) = Some SessionExpired then logged_out p else p)"
  by (cases ep) (auto simp: thrown_fst thrown_snd receive_snd split: sum.splits)

lemma logged_out_idem: "logged_out (logged_out p) = logged_out p"
  by (simp add: logged_out_def showLogin_def clearToken_def)

lemma settle_later_eq:
  "settle_later rs eps p =
     (if \<exists>e\<in>set eps. fst (settle rs e p) = Some SessionExpired then logged_out p else p)"
proof (induction eps arbitrary: p)
  case Nil
  then show ?case by (simp add: settle_later_def)
next
  case (Cons e eps)
  have step: "settle_later rs (e # eps) p = settle_later rs eps (snd (settle rs e p))"
    by (simp add: settle_later_def)
  have ind: "fst (settle rs x (logged_out p)) = fst (settle rs x p)" for x
    by (rule settle_fst_indep)
  show ?case
    unfolding step Cons.IH settle_snd
    by (auto simp: ind logged_out_idem)
qed

lemma await_all_ok:
  "\<forall>e\<in>set eps. fst (settle rs e p) = None \<Longrightarrow> await_all rs eps p = (None, [], p)"
proof (induction eps)
  case Nil
  then show ?case by simp
next
  case (Cons e eps)
  then have f: "fst (settle rs e p) = None" by simp
  then have "snd (settle rs e p) = p" by (simp add: settle_snd)
  with f have "settle rs e p = (None, p)" by (cases "settle rs e p") auto
  then show ?case using Cons by simp
qed

lemma await_all_fail:
  assumes "\<forall>e\<in>set pre. fst (settle rs e p) = None" and "fst (settle rs ep p) = Some err"
  shows "await_all rs (pre @ ep # post) p = (Some err, post, snd (settle rs ep p))"
  using assms
proof (induction pre)
  case Nil
  then obtain q where "settle rs ep p = (Some err, q)"
    by (cases "settle rs ep p") auto
  then show ?case by simp
next
  case (Cons e pre)
  then have f: "fst (settle rs e p) = None" by simp
  then have "snd (settle rs e p) = p" by (simp add: settle_snd)
  with f have "settle rs e p = (None, p)" by (cases "settle rs e p") auto
  then show ?case using Cons by simp
qed

lemma catch_logged_out: "catchDashboard e (logged_out p) = logged_out (catchDashboard e p)"
  by (simp add: catchDashboard_def logged_out_def showLogin_def)

lemma loadDashboard_fail:
  assumes "\<forall>e\<in>set pre. fst (settle rs e p) = None" and "fst (settle rs ep p) = Some err"
  shows "loadDashboard (pre @ ep # post) rs p =
     (if err = SessionExpired \<or> (\<exists>e\<in>set post. fst (settle rs e p) = Some SessionExpired)
      then logged_out (catchDashboard err (startDashboard p))
      else catchDashboard err (startDashboard p))"
proof -
  let ?q = "startDashboard p"
  have a1: "\<forall>e\<in>set pre. fst (settle rs e ?q) = None"
    using assms(1) settle_fst_indep[of rs _ ?q p] by simp
  have a2: "fst (settle rs ep ?q) = Some err"
    using assms(2) settle_fst_indep[of rs ep ?q p] by simp
  have aw: "await_all rs (pre @ ep # post) ?q = (Some err, post, snd (settle rs ep ?q))"
    by (rule await_all_fail[OF a1 a2])
  define q1 where "q1 = snd (settle rs ep ?q)"
  have q1: "q1 = (if err = SessionExpired then logged_out ?q else ?q)"
    by (simp add: q1_def settle_snd a2)
  have ind: "fst (settle rs x (catchDashboard err q1)) = fst (settle rs x p)" for x
    by (rule settle_fst_indep)
  have "loadDashboard (pre @ ep # post) rs p = settle_later rs post (catchDashboard err q1)"
    by (simp add: loadDashboard_def aw q1_def)
  also have "\<dots> =
     (if \<exists>e\<in>set post. fst (settle rs e p) = Some SessionExpired
      then logged_out (catchDashboard err q1) else catchDashboard err q1)"
    by (simp add: settle_later_eq ind)
  finally show ?thesis
    by (simp add: q1 catch_logged_out logged_out_idem)
qed


lemma await_all_page: "await_all rs eps p = (r, l, q) \<Longrightarrow> q = p \<or> q = logged_out p"
proof (induction eps arbitrary: p)
  case Nil
  then show ?case by simp
next
  case (Cons e eps)
  have sn: "snd (settle rs e p) = p \<or> snd (settle rs e p) = logged_out p"
    by (simp add: settle_snd)
  show ?case
  proof (cases "settle rs e p")
    case (Pair a b)
    show ?thesis
    proof (cases a)
      case None
      then have "await_all rs eps b = (r, l, q)" using Cons.prems Pair by simp
      then have "q = b \<or> q = logged_out b" by (rule Cons.IH)
      then show ?thesis using sn Pair by (auto simp: logged_out_idem)
    next
      case (Some err)
      then show ?thesis using Cons.prems Pair sn by auto
    qed
  qed
qed

lemma updateMetrics_frame:
  "requests (updateMetrics sigs p) = requests p
   \<and> localStorage (updateMetrics sigs p) = localStorage p
   \<and> visible (updateMetrics sigs p) = visible p"
  by (simp add: updateMetrics_def Let_def)

lemma renderDashboard_frame:
  "requests (snd (renderDashboard u s pf st p)) = requests p
   \<and> localStorage (snd (renderDashboard u s pf st p)) = localStorage p
   \<and> visible (snd (renderDashboard u s pf st p)) = visible p"
  by (simp add: renderDashboard_def Let_def updateMetrics_frame split: sum.splits)

lemma catchDashboard_frame:
  "requests (catchDashboard e p) = requests p
   \<and> localStorage (catchDashboard e p) = localStorage p
   \<and> visible (catchDashboard e p) = visible p"
  by (simp add: catchDashboard_def)

lemma logged_out_requests: "requests (logged_out p) = requests p"
  by (simp add: logged_out_def showLogin_def)

lemma loadDashboard_requests:
  "requests (loadDashboard order rs p) = requests (startDashboard p)"
proof -
  obtain r l q where aw: "await_all rs order (startDashboard p) = (r, l, q)"
    by (cases "await_all rs order (startDashboard p)") auto
  have q: "requests q = requests (startDashboard p)"
    using await_all_page[OF aw] by (auto simp: logged_out_requests)
  show ?thesis
  proof (cases r)
    case (Some e)
    then have "loadDashboard order rs p = settle_later rs l (catchDashboard e q)"
      by (simp add: loadDashboard_def aw)
    then show ?thesis
      by (simp add: settle_later_eq logged_out_requests catchDashboard_frame q)
  next
    case None
    have rq: "requests (case renderDashboard u s pf st q of
                 (Some e, q') \<Rightarrow> catchDashboard e q' | (None, q') \<Rightarrow> q') = requests q"
      for u s pf st
      using renderDashboard_frame[of u s pf st q]
      by (cases "renderDashboard u s pf st q") (auto simp: catchDashboard_frame split: option.splits)
    show ?thesis
      unfolding loadDashboard_def aw None
      by (simp add: q rq split: option.splits)
  qed
qed

lemma startDashboard_requests:
  "requests (startDashboard p) =
     requests p @ map (\<lambda>path. (API_BASE @ path, authorization (localStorage p)))
       [''/api/universe'', ''/api/signals'', ''/api/portfolios'', ''/api/stress-tests'']"
  by (simp add: startDashboard_def fetchAPI_send_def)


lemma logged_out_fields:
  "getToken (localStorage (logged_out p)) = None \<and> visible (logged_out p) = LoginScreen
   \<and> regimeBadge (logged_out p) = regimeBadge p \<and> clientGrid (logged_out p) = clientGrid p
   \<and> signalsBody (logged_out p) = signalsBody p \<and> stressGrid (logged_out p) = stressGrid p
   \<and> metricRegime (logged_out p) = metricRegime p \<and> metricAvgIv (logged_out p) = metricAvgIv p
   \<and> metricHighFear (logged_out p) = metricHighFear p
   \<and> metricMaxIvr (logged_out p) = metricMaxIvr p"
  by (simp add: logged_out_def showLogin_def getToken_def clearToken_def)

lemma start_fields:
  "regimeBadge (startDashboard p) = JStr (''Loading'' @ ellipsis)
   \<and> clientGrid (startDashboard p) = GridLoading
   \<and> signalsBody (startDashboard p) = []
   \<and> stressGrid (startDashboard p) = StressLoading
   \<and> metricRegime (startDashboard p) = metricRegime p
   \<and> metricAvgIv (startDashboard p) = metricAvgIv p
   \<and> metricHighFear (startDashboard p) = metricHighFear p
   \<and> metricMaxIvr (startDashboard p) = metricMaxIvr p
   \<and> localStorage (startDashboard p) = localStorage p
   \<and> visible (startDashboard p) = visible p"
  by (simp add: startDashboard_def fetchAPI_send_def)

lemma catch_fields:
  "e \<noteq> Error ''Session expired'' \<Longrightarrow>
   regimeBadge (catchDashboard e p) = JStr em_dash
   \<and> clientGrid (catchDashboard e p) = GridUnreachable
   \<and> signalsBody (catchDashboard e p) = []
   \<and> stressGrid (catchDashboard e p) = StressCards []"
  by (simp add: catchDashboard_def)

lemma catch_tiles:
  "metricRegime (catchDashboard e p) = metricRegime p
   \<and> metricAvgIv (catchDashboard e p) = metricAvgIv p
   \<and> metricHighFear (catchDashboard e p) = metricHighFear p
   \<and> metricMaxIvr (catchDashboard e p) = metricMaxIvr p"
  by (simp add: catchDashboard_def)

lemma returned_receive: "returned res = Some b \<Longrightarrow> fetchAPI_receive res p = (Inr b, p)"
  by (auto simp: returned_def fetchAPI_receive_def split: fetched.splits if_splits)

lemma updateMetrics_tiles:
  "metricAvgIv q = metricAvgIv p \<Longrightarrow> metricHighFear q = metricHighFear p
   \<Longrightarrow> metricMaxIvr q = metricMaxIvr p \<Longrightarrow>
   metricAvgIv (updateMetrics sigs q) = metricAvgIv (updateMetrics sigs p)
   \<and> metricHighFear (updateMetrics sigs q) = metricHighFear (updateMetrics sigs p)
   \<and> metricMaxIvr (updateMetrics sigs q) = metricMaxIvr (updateMetrics sigs p)"
  by (simp add: updateMetrics_def Let_def)

lemma updateMetrics_panels:
  "regimeBadge (updateMetrics sigs p) = regimeBadge p
   \<and> clientGrid (updateMetrics sigs p) = clientGrid p
   \<and> signalsBody (updateMetrics sigs p) = signalsBody p
   \<and> stressGrid (updateMetrics sigs p) = stressGrid p
   \<and> metricRegime (updateMetrics sigs p) = metricRegime p"
  by (simp add: updateMetrics_def Let_def)



text \<open>
  C7, as the code has it. \<^verbatim>\<open>fetchAPI\<close> fails in three ways that differ: with
  \<^verbatim>\<open>Error("Session expired")\<close> on a 401, with \<^verbatim>\<open>Error("API error: " + status)\<close> on any
  other status outside 200 to 299, and with the rejection of \<^verbatim>\<open>fetch\<close> itself when no
  response arrives. \<^verbatim>\<open>loadDashboard\<close> tells only the first from the rest: whenever the
  first call to fail fails with anything but \<^verbatim>\<open>Session expired\<close>, the regime badge shows
  the em dash, the client grid shows the message on starting the backend, and the
  signals table and the stress grid are emptied.
\<close>

theorem api_failures_surface_alike:
  "(st \<noteq> 401 \<and> \<not> (200 \<le> st \<and> st \<le> 299) \<longrightarrow>
      fetchAPI path (Response st body) p
        = (Inl (Error (''API error: '' @ dec_digits st)), fetchAPI_send path p))
   \<and> fetchAPI path NoResponse p = (Inl NetworkError, fetchAPI_send path p)
   \<and> Error (''API error: '' @ dec_digits st) \<noteq> NetworkError
   \<and> Error (''API error: '' @ dec_digits st) \<noteq> Error ''Session expired''
   \<and> NetworkError \<noteq> Error ''Session expired''
   \<and> (order = pre @ ep # post \<and> (\<forall>e\<in>set pre. fst (settle rs e p) = None)
        \<and> fst (settle rs ep p) = Some err \<and> err \<noteq> Error ''Session expired''
       \<longrightarrow> regimeBadge (loadDashboard order rs p) = JStr em_dash
         \<and> clientGrid (loadDashboard order rs p) = GridUnreachable
         \<and> signalsBody (loadDashboard order rs p) = []
         \<and> stressGrid (loadDashboard order rs p) = StressCards [])"
proof (intro conjI impI)
  assume "st \<noteq> 401 \<and> \<not> (200 \<le> st \<and> st \<le> 299)"
  then show "fetchAPI path (Response st body) p
        = (Inl (Error (''API error: '' @ dec_digits st)), fetchAPI_send path p)"
    by (simp add: fetchAPI_def fetchAPI_receive_def)
next
  show "fetchAPI path NoResponse p = (Inl NetworkError, fetchAPI_send path p)"
    by (simp add: fetchAPI_def fetchAPI_receive_def)
  show "Error (''API error: '' @ dec_digits st) \<noteq> NetworkError" by simp
  show "Error (''API error: '' @ dec_digits st) \<noteq> Error ''Session expired''" by simp
  show "NetworkError \<noteq> Error ''Session expired''" by simp
next
  assume a: "order = pre @ ep # post \<and> (\<forall>e\<in>set pre. fst (settle rs e p) = None)
        \<and> fst (settle rs ep p) = Some err \<and> err \<noteq> Error ''Session expired''"
  let ?c = "catchDashboard err (startDashboard p)"
  have "loadDashboard order rs p = ?c \<or> loadDashboard order rs p = logged_out ?c"
    using a loadDashboard_fail[of pre rs p ep err post] by auto
  then show "regimeBadge (loadDashboard order rs p) = JStr em_dash"
    "clientGrid (loadDashboard order rs p) = GridUnreachable"
    "signalsBody (loadDashboard order rs p) = []"
    "stressGrid (loadDashboard order rs p) = StressCards []"
    using a catch_fields[of err "startDashboard p"] by (auto simp: logged_out_fields)
qed

theorem api_failures_surface_alike_witness:
  "(500::nat) \<noteq> 401 \<and> \<not> (200 \<le> (500::nat) \<and> (500::nat) \<le> 299)
   \<and> issue_order = [Universe] @ Signals # [Portfolios, StressTests]
   \<and> fst (settle (ok_responses\<lparr>signals_response := Response 500 None\<rparr>) Universe a_page) = None
   \<and> fst (settle (ok_responses\<lparr>signals_response := Response 500 None\<rparr>) Signals a_page) = Some (Error ''API error: 500'')
   \<and> Error ''API error: 500'' \<noteq> Error ''Session expired''
   \<and> regimeBadge (loadDashboard issue_order (ok_responses\<lparr>signals_response := Response 500 None\<rparr>) a_page) = JStr em_dash
   \<and> clientGrid (loadDashboard issue_order (ok_responses\<lparr>signals_response := Response 500 None\<rparr>) a_page) = GridUnreachable
   \<and> signalsBody (loadDashboard issue_order (ok_responses\<lparr>signals_response := Response 500 None\<rparr>) a_page) = []
   \<and> stressGrid (loadDashboard issue_order (ok_responses\<lparr>signals_response := Response 500 None\<rparr>) a_page) = StressCards []"
proof -
  have ev: ?thesis
    by code_simp
  show ?thesis
    using
      api_failures_surface_alike [of 500 "''/api/signals''" "None :: signalsRes option" a_page
        issue_order "[Universe]" Signals "[Portfolios, StressTests]" "ok_responses\<lparr>signals_response := Response 500 None\<rparr>"
        "Error ''API error: 500''"]
    by - (rule ev)
qed

text \<open>
  Where C7 as stated fails: a 500 from \<^verbatim>\<open>/api/signals\<close> and no response from
  \<^verbatim>\<open>/api/signals\<close> are two different errors of \<^verbatim>\<open>fetchAPI\<close>, and the dashboard shows
  the same for both: the message on starting the backend in the client grid, and an
  empty signals table with no error text in it.
\<close>

theorem api_failures_counterexample:
  "fst (settle (ok_responses\<lparr>signals_response := Response 500 None\<rparr>) Signals a_page) = Some (Error ''API error: 500'')
   \<and> fst (settle (ok_responses\<lparr>signals_response := NoResponse\<rparr>) Signals a_page) = Some NetworkError
   \<and> clientGrid (loadDashboard issue_order (ok_responses\<lparr>signals_response := Response 500 None\<rparr>) a_page) = GridUnreachable
   \<and> clientGrid (loadDashboard issue_order (ok_responses\<lparr>signals_response := NoResponse\<rparr>) a_page) = GridUnreachable
   \<and> signalsBody (loadDashboard issue_order (ok_responses\<lparr>signals_response := Response 500 None\<rparr>) a_page) = []
   \<and> signalsBody (loadDashboard issue_order (ok_responses\<lparr>signals_response := NoResponse\<rparr>) a_page) = []
   \<and> regimeBadge (loadDashboard issue_order (ok_responses\<lparr>signals_response := Response 500 None\<rparr>) a_page)
       = regimeBadge (loadDashboard issue_order (ok_responses\<lparr>signals_response := NoResponse\<rparr>) a_page)
   \<and> stressGrid (loadDashboard issue_order (ok_responses\<lparr>signals_response := Response 500 None\<rparr>) a_page)
       = stressGrid (loadDashboard issue_order (ok_responses\<lparr>signals_response := NoResponse\<rparr>) a_page)"
  by code_simp

text \<open>
  C8, as the code has it. A refresh first puts the loading placeholders in the regime
  badge, the client grid, the signals table and the stress grid, and sends the four
  requests. When a call fails, nothing derived from the responses is shown and the four
  metric tiles keep what they showed: if the first call to fail fails with anything but
  \<^verbatim>\<open>Session expired\<close> the panels show the error state, and if it fails with
  \<^verbatim>\<open>Session expired\<close> they keep the placeholders, the login screen is shown and the
  token is cleared. When all four calls succeed and rendering does not throw, the panels
  and the tiles show what was derived from the four bodies.
\<close>

theorem refresh_cycle:
  "requests (loadDashboard order rs p) =
      requests p @ map (\<lambda>path. (API_BASE @ path, authorization (localStorage p)))
        [''/api/universe'', ''/api/signals'', ''/api/portfolios'', ''/api/stress-tests'']
   \<and> (order = pre @ ep # post \<and> (\<forall>e\<in>set pre. fst (settle rs e p) = None)
        \<and> fst (settle rs ep p) = Some err
       \<longrightarrow> metricRegime (loadDashboard order rs p) = metricRegime p
         \<and> metricAvgIv (loadDashboard order rs p) = metricAvgIv p
         \<and> metricHighFear (loadDashboard order rs p) = metricHighFear p
         \<and> metricMaxIvr (loadDashboard order rs p) = metricMaxIvr p
         \<and> signalsBody (loadDashboard order rs p) = []
         \<and> (err \<noteq> Error ''Session expired'' \<longrightarrow>
              regimeBadge (loadDashboard order rs p) = JStr em_dash
              \<and> clientGrid (loadDashboard order rs p) = GridUnreachable
              \<and> stressGrid (loadDashboard order rs p) = StressCards [])
         \<and> (err = Error ''Session expired'' \<longrightarrow>
              regimeBadge (loadDashboard order rs p) = JStr (''Loading'' @ ellipsis)
              \<and> clientGrid (loadDashboard order rs p) = GridLoading
              \<and> stressGrid (loadDashboard order rs p) = StressLoading
              \<and> visible (loadDashboard order rs p) = LoginScreen
              \<and> getToken (localStorage (loadDashboard order rs p)) = None))
   \<and> (returned (universe_response rs) = Some u \<and> returned (signals_response rs) = Some sg
        \<and> returned (portfolios_response rs) = Some pf \<and> returned (stress_response rs) = Some sc
        \<and> set order = {Universe, Signals, Portfolios, StressTests}
        \<and> mapE renderClientCard (or_empty (portfolios pf)) = Inr cards
        \<and> renderSignalsTable (or_empty (signals sg)) = Inr rows
        \<and> mapE renderStressCard (or_empty (scenarios sc)) = Inr stress
       \<longrightarrow> regimeBadge (loadDashboard order rs p)
             = js_or (universe_regime u) (js_or (signals_regime sg) (JStr em_dash))
         \<and> clientGrid (loadDashboard order rs p) = GridCards cards
         \<and> signalsBody (loadDashboard order rs p) = rows
         \<and> stressGrid (loadDashboard order rs p) = StressCards stress
         \<and> metricAvgIv (loadDashboard order rs p)
             = metricAvgIv (updateMetrics (or_empty (signals sg)) p)
         \<and> metricHighFear (loadDashboard order rs p)
             = metricHighFear (updateMetrics (or_empty (signals sg)) p)
         \<and> metricMaxIvr (loadDashboard order rs p)
             = metricMaxIvr (updateMetrics (or_empty (signals sg)) p))"
proof (intro conjI impI)
  show "requests (loadDashboard order rs p) =
      requests p @ map (\<lambda>path. (API_BASE @ path, authorization (localStorage p)))
        [''/api/universe'', ''/api/signals'', ''/api/portfolios'', ''/api/stress-tests'']"
    by (simp only: loadDashboard_requests startDashboard_requests)
next
  assume a: "order = pre @ ep # post \<and> (\<forall>e\<in>set pre. fst (settle rs e p) = None)
        \<and> fst (settle rs ep p) = Some err"
  let ?c = "catchDashboard err (startDashboard p)"
  have ld: "loadDashboard order rs p =
     (if err = SessionExpired \<or> (\<exists>e\<in>set post. fst (settle rs e p) = Some SessionExpired)
      then logged_out ?c else ?c)"
    using a loadDashboard_fail[of pre rs p ep err post] by simp
  then have alt: "loadDashboard order rs p = ?c \<or> loadDashboard order rs p = logged_out ?c"
    by auto
  show "metricRegime (loadDashboard order rs p) = metricRegime p"
    "metricAvgIv (loadDashboard order rs p) = metricAvgIv p"
    "metricHighFear (loadDashboard order rs p) = metricHighFear p"
    "metricMaxIvr (loadDashboard order rs p) = metricMaxIvr p"
    using alt by (auto simp: logged_out_fields catch_tiles start_fields)
  show "signalsBody (loadDashboard order rs p) = []"
    using alt by (auto simp: logged_out_fields catchDashboard_def start_fields)
  {
    assume ne: "err \<noteq> Error ''Session expired''"
    show "regimeBadge (loadDashboard order rs p) = JStr em_dash"
      "clientGrid (loadDashboard order rs p) = GridUnreachable"
      "stressGrid (loadDashboard order rs p) = StressCards []"
      using alt catch_fields[OF ne, of "startDashboard p"] by (auto simp: logged_out_fields)
  }
  {
    assume se: "err = Error ''Session expired''"
    then have "loadDashboard order rs p = logged_out (startDashboard p)"
      using ld by (simp add: SessionExpired_def catchDashboard_def)
    then show "regimeBadge (loadDashboard order rs p) = JStr (''Loading'' @ ellipsis)"
      "clientGrid (loadDashboard order rs p) = GridLoading"
      "stressGrid (loadDashboard order rs p) = StressLoading"
      "visible (loadDashboard order rs p) = LoginScreen"
      "getToken (localStorage (loadDashboard order rs p)) = None"
      by (simp_all add: logged_out_fields start_fields)
  }
next
  assume a: "returned (universe_response rs) = Some u \<and> returned (signals_response rs) = Some sg
        \<and> returned (portfolios_response rs) = Some pf \<and> returned (stress_response rs) = Some sc
        \<and> set order = {Universe, Signals, Portfolios, StressTests}
        \<and> mapE renderClientCard (or_empty (portfolios pf)) = Inr cards
        \<and> renderSignalsTable (or_empty (signals sg)) = Inr rows
        \<and> mapE renderStressCard (or_empty (scenarios sc)) = Inr stress"
  let ?q = "startDashboard p"
  have ok: "fst (settle rs e ?q) = None" for e
    using a by (cases e) (simp_all add: thrown_def returned_receive)
  have aw: "await_all rs order ?q = (None, [], ?q)"
    by (rule await_all_ok) (simp add: ok)
  let ?rg = "js_or (universe_regime u) (js_or (signals_regime sg) (JStr em_dash))"
  let ?p3 = "updateMetrics (or_empty (signals sg))
      (?q\<lparr>regimeBadge := ?rg, metricRegime := setText (metricRegime ?q) ?rg\<rparr>)"
  have rd: "renderDashboard u sg pf sc ?q =
      (None, ?p3\<lparr>clientGrid := GridCards cards, signalsBody := rows,
                 stressGrid := StressCards stress\<rparr>)"
    using a by (simp add: renderDashboard_def Let_def)
  have ld: "loadDashboard order rs p =
      ?p3\<lparr>clientGrid := GridCards cards, signalsBody := rows, stressGrid := StressCards stress\<rparr>"
    using a by (simp add: loadDashboard_def aw rd)
  show "regimeBadge (loadDashboard order rs p) = ?rg"
    "clientGrid (loadDashboard order rs p) = GridCards cards"
    "signalsBody (loadDashboard order rs p) = rows"
    "stressGrid (loadDashboard order rs p) = StressCards stress"
    by (simp_all add: ld updateMetrics_panels)
  have t: "metricAvgIv ?p3 = metricAvgIv (updateMetrics (or_empty (signals sg)) p)
   \<and> metricHighFear ?p3 = metricHighFear (updateMetrics (or_empty (signals sg)) p)
   \<and> metricMaxIvr ?p3 = metricMaxIvr (updateMetrics (or_empty (signals sg)) p)"
    by (rule updateMetrics_tiles) (simp_all add: start_fields)
  show "metricAvgIv (loadDashboard order rs p)
             = metricAvgIv (updateMetrics (or_empty (signals sg)) p)"
     "metricHighFear (loadDashboard order rs p)
             = metricHighFear (updateMetrics (or_empty (signals sg)) p)"
     "metricMaxIvr (loadDashboard order rs p)
             = metricMaxIvr (updateMetrics (or_empty (signals sg)) p)"
    using t by (simp_all add: ld)
qed

theorem refresh_cycle_witness:
  "issue_order = [Universe] @ Signals # [Portfolios, StressTests]
   \<and> fst (settle (ok_responses\<lparr>signals_response := Response 500 None\<rparr>) Universe a_page) = None
   \<and> fst (settle (ok_responses\<lparr>signals_response := Response 500 None\<rparr>) Signals a_page) = Some (Error ''API error: 500'')
   \<and> metricAvgIv (loadDashboard issue_order (ok_responses\<lparr>signals_response := Response 500 None\<rparr>) a_page) = Some ''18.0%''
   \<and> clientGrid (loadDashboard issue_order (ok_responses\<lparr>signals_response := Response 500 None\<rparr>) a_page) = GridUnreachable
   \<and> issue_order = [Universe, Signals] @ Portfolios # [StressTests]
   \<and> fst (settle (ok_responses\<lparr>portfolios_response := Response 401 None\<rparr>) Portfolios a_page) = Some (Error ''Session expired'')
   \<and> clientGrid (loadDashboard issue_order (ok_responses\<lparr>portfolios_response := Response 401 None\<rparr>) a_page) = GridLoading
   \<and> visible (loadDashboard issue_order (ok_responses\<lparr>portfolios_response := Response 401 None\<rparr>) a_page) = LoginScreen
   \<and> set issue_order = {Universe, Signals, Portfolios, StressTests}
   \<and> regimeBadge (loadDashboard issue_order ok_responses a_page) = JStr ''STRESS''
   \<and> clientGrid (loadDashboard issue_order ok_responses a_page) =
        GridCards [\<lparr>card_statusClass = ''client-card--good'', card_misaligned = False,
          card_client_id = JStr ''c1'', card_name = JStr ''Ada'', card_hasUpdate = False,
          card_risk_label = JStr ''MODERATE'', card_targetVol = ''10.0'',
          card_currentVol = ''8.0'', card_sharpe = ''1.23'', card_drift = ''SPY +4.0%''\<rparr>]
   \<and> stressGrid (loadDashboard issue_order ok_responses a_page) = StressCards []
   \<and> metricAvgIv (loadDashboard issue_order ok_responses a_page) = Some ''25.0%''
   \<and> metricHighFear (loadDashboard issue_order ok_responses a_page) = Some ''1''
   \<and> metricMaxIvr (loadDashboard issue_order ok_responses a_page) = Some ''1.23''"
proof -
  have ev: ?thesis
    by code_simp
  show ?thesis
    using
      refresh_cycle [of issue_order "ok_responses\<lparr>signals_response := Response 500 None\<rparr>" a_page "[Universe]" Signals
        "[Portfolios, StressTests]" "Error ''API error: 500''"]
      refresh_cycle [of issue_order "ok_responses\<lparr>portfolios_response := Response 401 None\<rparr>" a_page "[Universe, Signals]" Portfolios
        "[StressTests]" "Error ''Session expired''"]
      refresh_cycle [of issue_order ok_responses a_page]
    by - (rule ev)
qed

text \<open>
  Where C8 as stated fails: the dashboard shows the regime NORMAL and one client card;
  a refresh in which \<^verbatim>\<open>/api/signals\<close> answers 500 leaves the em dash in the regime badge
  and the message on starting the backend in place of the card.
\<close>

theorem refresh_cycle_counterexample:
  "fst (settle (ok_responses\<lparr>signals_response := Response 500 None\<rparr>) Signals a_page) = Some (Error ''API error: 500'')
   \<and> regimeBadge a_page = JStr ''NORMAL''
   \<and> regimeBadge (loadDashboard issue_order (ok_responses\<lparr>signals_response := Response 500 None\<rparr>) a_page) = JStr em_dash
   \<and> regimeBadge (loadDashboard issue_order (ok_responses\<lparr>signals_response := Response 500 None\<rparr>) a_page) \<noteq> regimeBadge a_page
   \<and> clientGrid a_page = GridCards [a_card]
   \<and> clientGrid (loadDashboard issue_order (ok_responses\<lparr>signals_response := Response 500 None\<rparr>) a_page) = GridUnreachable
   \<and> clientGrid (loadDashboard issue_order (ok_responses\<lparr>signals_response := Response 500 None\<rparr>) a_page) \<noteq> clientGrid a_page"
  by code_simp




end
